theory Spec2Isabelle
  imports Complex_Main
begin

section \<open>Python values and exceptions\<close>

text \<open>
  The values that reach the code from a parsed JSON document or from a configuration
  dictionary. A dictionary is the list of its items, in insertion order, with distinct
  keys (as a Python dict has); a finite float is the rational it denotes.
\<close>

datatype pyval =
    PNone
  | PBool bool
  | PInt int
  | PFloat rat
  | PStr string
  | PList "pyval list"
  | PDict "(string \<times> pyval) list"

text \<open>
  An exception is its class and the text that \<open>str(e)\<close> gives. Only the class
  \<open>ProgrammingError\<close> is told apart by a handler of the source; the other classes
  are all caught by \<open>except Exception\<close>.
\<close>

datatype exn_class =
  ProgrammingError | AttributeError | TypeError | KeyError | ValueError | GenericException

datatype exn = Raise exn_class string

fun exn_class_of :: "exn \<Rightarrow> exn_class" where
  "exn_class_of (Raise c m) = c"

fun exn_str :: "exn \<Rightarrow> string" where
  "exn_str (Raise c m) = m"

text \<open>Truth value of a value, as \<open>not x\<close>, \<open>if x\<close> and \<open>x or y\<close> test it.\<close>

fun truthy :: "pyval \<Rightarrow> bool" where
  "truthy PNone = False"
| "truthy (PBool b) = b"
| "truthy (PInt i) = (i \<noteq> 0)"
| "truthy (PFloat q) = (q \<noteq> 0)"
| "truthy (PStr s) = (s \<noteq> [])"
| "truthy (PList xs) = (xs \<noteq> [])"
| "truthy (PDict kvs) = (kvs \<noteq> [])"

definition py_or :: "pyval \<Rightarrow> pyval \<Rightarrow> pyval" where
  "py_or a b = (if truthy a then a else b)"

fun type_name :: "pyval \<Rightarrow> string" where
  "type_name PNone = ''NoneType''"
| "type_name (PBool b) = ''bool''"
| "type_name (PInt i) = ''int''"
| "type_name (PFloat q) = ''float''"
| "type_name (PStr s) = ''str''"
| "type_name (PList xs) = ''list''"
| "type_name (PDict kvs) = ''dict''"

text \<open>\<open>needle in hay\<close> on two strings: \<open>needle\<close> occurs as a contiguous part.\<close>

fun str_contains :: "string \<Rightarrow> string \<Rightarrow> bool" where
  "str_contains [] needle = (needle = [])"
| "str_contains (c # cs) needle =
     (take (length needle) (c # cs) = needle \<or> str_contains cs needle)"

text \<open>
  \<open>key in container\<close> for a string key: membership among the keys of a dict, among
  the elements of a list, as a substring of a string; a TypeError on anything else.
\<close>

fun py_in :: "string \<Rightarrow> pyval \<Rightarrow> exn + bool" where
  "py_in k (PDict kvs) = Inr (k \<in> set (map fst kvs))"
| "py_in k (PList xs) = Inr (PStr k \<in> set xs)"
| "py_in k (PStr s) = Inr (str_contains s k)"
| "py_in k v =
     Inl (Raise TypeError (''argument of type '' @ [CHR 0x27] @ type_name v @ [CHR 0x27]
                           @ '' is not iterable''))"

definition no_attribute :: "pyval \<Rightarrow> string \<Rightarrow> exn" where
  "no_attribute v a =
     Raise AttributeError ([CHR 0x27] @ type_name v @ [CHR 0x27] @ '' object has no attribute ''
                           @ [CHR 0x27] @ a @ [CHR 0x27])"

text \<open>\<open>container.get(key, default)\<close>: only a dict has the method.\<close>

fun py_get :: "pyval \<Rightarrow> string \<Rightarrow> pyval \<Rightarrow> exn + pyval" where
  "py_get (PDict kvs) k d = Inr (case map_of kvs k of Some v \<Rightarrow> v | None \<Rightarrow> d)"
| "py_get v k d = Inl (no_attribute v ''get'')"

text \<open>\<open>container[key]\<close> for a string key.\<close>

fun py_getitem :: "pyval \<Rightarrow> string \<Rightarrow> exn + pyval" where
  "py_getitem (PDict kvs) k =
     (case map_of kvs k of
        Some v \<Rightarrow> Inr v
      | None \<Rightarrow> Inl (Raise KeyError ([CHR 0x27] @ k @ [CHR 0x27])))"
| "py_getitem (PList xs) k =
     Inl (Raise TypeError ''list indices must be integers or slices, not str'')"
| "py_getitem (PStr s) k = Inl (Raise TypeError ''string indices must be integers'')"
| "py_getitem v k =
     Inl (Raise TypeError ([CHR 0x27] @ type_name v @ [CHR 0x27] @ '' object is not subscriptable''))"

section \<open>The runner registry (storage_runner/__init__.py)\<close>

text \<open>
  A runner class, as \<open>register_storage\<close> sees it: the results of its class methods
  \<open>enabled()\<close>, \<open>name()\<close> and \<open>type()\<close>, and the identity of the class object.
\<close>

record runner_class =
  cls_id :: nat
  cls_enabled :: bool
  cls_name :: string
  cls_type :: string

type_synonym registry = "string \<rightharpoonup> runner_class"

text \<open>The module-level dict \<open>storage_runners = {}\<close>.\<close>

definition storage_runners :: registry where
  "storage_runners = Map.empty"

text \<open>
  \<open>register_storage\<close> updates the global dict in place; the model returns the new dict.
  The two branches differ, beyond the debug log line, only in the assignment.
\<close>

definition register_storage :: "registry \<Rightarrow> runner_class \<Rightarrow> registry" where
  "register_storage reg storage_runner_class =
     (if cls_enabled storage_runner_class
      then reg(cls_type storage_runner_class \<mapsto> storage_runner_class)
      else reg)"

text \<open>The invariant of the registry: every key is the type string of the class stored under it.\<close>

definition registry_inv :: "registry \<Rightarrow> bool" where
  "registry_inv reg = (\<forall>k c. reg k = Some c \<longrightarrow> cls_type c = k)"

text \<open>
  The class \<open>MinioRunner\<close> of storage_runner/minio.py; \<open>enabled\<close> is whether the
  import of the client library succeeded.
\<close>

definition MinioRunner :: "bool \<Rightarrow> runner_class" where
  "MinioRunner enabled =
     \<lparr>cls_id = 0, cls_enabled = enabled, cls_name = ''MinIO'', cls_type = ''minio''\<rparr>"

section \<open>The object-storage runners (storage_runner/__init__.py, storage_runner/minio.py)\<close>

text \<open>
  What the runners call and this repository does not define: the JSON parser
  \<open>redash.utils.json_loads\<close>, and Python's \<open>str()\<close> on a value that is neither a
  string, None nor a boolean (its text is only ever pasted into an error message).
\<close>

record externals =
  json_loads :: "string \<Rightarrow> exn + pyval"
  str_other :: "pyval \<Rightarrow> string"

fun py_str :: "externals \<Rightarrow> pyval \<Rightarrow> string" where
  "py_str x (PStr s) = s"
| "py_str x PNone = ''None''"
| "py_str x (PBool b) = (if b then ''True'' else ''False'')"
| "py_str x v = str_other x v"

text \<open>
  An object as the MinIO client library reports it. The runner only copies the four
  attributes, so their values are of an arbitrary type \<open>'v\<close>.
\<close>

record 'v minio_object =
  obj_object_name :: 'v
  obj_last_modified :: 'v
  obj_size :: 'v
  obj_etag :: 'v

text \<open>
  A \<open>MinioRunner\<close> instance: its configuration dictionary, and the behaviour of
  \<open>self.client.list_objects(bucket_name)\<close> once its result is iterated: the objects of
  the bucket, or the exception the client library raises.
\<close>

record 'v minio_runner =
  configuration :: "string \<rightharpoonup> pyval"
  client_list_objects :: "pyval \<Rightarrow> exn + 'v minio_object list"

text \<open>\<open>self.configuration.get(key)\<close>: None when the key is absent.\<close>

definition configuration_get :: "'v minio_runner \<Rightarrow> string \<Rightarrow> pyval" where
  "configuration_get self k = (case configuration self k of Some v \<Rightarrow> v | None \<Rightarrow> PNone)"

text \<open>The dictionary that \<open>list_objects\<close> builds for one object.\<close>

definition object_entry :: "'v minio_object \<Rightarrow> (string \<times> 'v) list" where
  "object_entry obj =
     [(''name'', obj_object_name obj),
      (''last_modified'', obj_last_modified obj),
      (''size'', obj_size obj),
      (''etag'', obj_etag obj)]"

text \<open>
  \<open>MinioRunner.list_objects(bucket_name=None)\<close>. The first statement replaces a falsy
  argument by the configured bucket; any exception of the client is raised again as a
  plain Exception whose text names the bucket and the cause.
\<close>

definition list_objects ::
  "externals \<Rightarrow> 'v minio_runner \<Rightarrow> pyval \<Rightarrow> exn + (string \<times> 'v) list list" where
  "list_objects x self bucket_name =
     (let bucket_name = py_or bucket_name (configuration_get self ''bucket'') in
      case client_list_objects self bucket_name of
        Inr objects \<Rightarrow> Inr (map object_entry objects)
      | Inl e \<Rightarrow>
          Inl (Raise GenericException
                 (''Failed to list objects from bucket '' @ py_str x bucket_name @ '': '' @ exn_str e)))"

text \<open>\<open>MinioRunner.test_connection()\<close>: True, or an Exception that carries the cause.\<close>

definition test_connection :: "externals \<Rightarrow> 'v minio_runner \<Rightarrow> exn + bool" where
  "test_connection x self =
     (case list_objects x self PNone of
        Inr objects \<Rightarrow> Inr True
      | Inl e \<Rightarrow> Inl (Raise GenericException (''MinIO connection test failed: '' @ exn_str e)))"

text \<open>
  \<open>BaseStorageRunner.test_connection()\<close>. \<open>list_objects\<close> is abstract in the base class:
  the model takes the subclass's method as a parameter.
\<close>

definition base_test_connection :: "(pyval \<Rightarrow> exn + 'a) \<Rightarrow> exn + bool" where
  "base_test_connection self_list_objects =
     (case self_list_objects PNone of
        Inr objects \<Rightarrow> Inr True
      | Inl e \<Rightarrow> Inl (Raise GenericException (''Failed to connect to the storage: '' @ exn_str e)))"

text \<open>The result of a query: column descriptors and rows (dictionaries from column name to value).\<close>

record column =
  col_name :: string
  col_type :: string

record 'v tabular_result =
  columns :: "column list"
  rows :: "(string \<times> 'v) list list"

text \<open>\<open>obj[key]\<close> on one of the dictionaries of an object list.\<close>

definition entry_getitem :: "(string \<times> 'v) list \<Rightarrow> string \<Rightarrow> exn + 'v" where
  "entry_getitem obj k =
     (case map_of obj k of
        Some v \<Rightarrow> Inr v
      | None \<Rightarrow> Inl (Raise KeyError ([CHR 0x27] @ k @ [CHR 0x27])))"

text \<open>A list comprehension whose body may raise: the first exception ends it.\<close>

fun map_exn :: "('a \<Rightarrow> exn + 'b) \<Rightarrow> 'a list \<Rightarrow> exn + 'b list" where
  "map_exn f [] = Inr []"
| "map_exn f (a # as) =
     (case f a of
        Inl e \<Rightarrow> Inl e
      | Inr b \<Rightarrow> (case map_exn f as of Inl e \<Rightarrow> Inl e | Inr bs \<Rightarrow> Inr (b # bs)))"

definition minio_columns :: "column list" where
  "minio_columns =
     [\<lparr>col_name = ''object_name'', col_type = ''string''\<rparr>,
      \<lparr>col_name = ''last_modified'', col_type = ''date''\<rparr>,
      \<lparr>col_name = ''size'', col_type = ''integer''\<rparr>,
      \<lparr>col_name = ''etag'', col_type = ''string''\<rparr>]"

text \<open>The row that \<open>MinioRunner.run_query\<close> builds from one entry of the object list.\<close>

definition minio_row :: "(string \<times> 'v) list \<Rightarrow> exn + (string \<times> 'v) list" where
  "minio_row obj =
     (case entry_getitem obj ''name'' of Inl e \<Rightarrow> Inl e | Inr n \<Rightarrow>
     (case entry_getitem obj ''last_modified'' of Inl e \<Rightarrow> Inl e | Inr lm \<Rightarrow>
     (case entry_getitem obj ''size'' of Inl e \<Rightarrow> Inl e | Inr sz \<Rightarrow>
     (case entry_getitem obj ''etag'' of Inl e \<Rightarrow> Inl e | Inr et \<Rightarrow>
        Inr [(''object_name'', n), (''last_modified'', lm), (''size'', sz), (''etag'', et)]))))"

text \<open>
  \<open>MinioRunner.run_query(query, user)\<close>. The whole body is inside \<open>try\<close>; the handler
  returns \<open>(None, str(e))\<close>. The pair \<open>(result, error)\<close> is a pair of options, None for
  Python's None.
\<close>

definition run_query ::
  "externals \<Rightarrow> 'v minio_runner \<Rightarrow> string \<Rightarrow> 'u \<Rightarrow> 'v tabular_result option \<times> string option" where
  "run_query x self query user =
     (case json_loads x query of Inl e \<Rightarrow> (None, Some (exn_str e)) | Inr query_params \<Rightarrow>
     (case py_get query_params ''bucket'' (configuration_get self ''bucket'') of
        Inl e \<Rightarrow> (None, Some (exn_str e)) | Inr bucket_name \<Rightarrow>
     (case list_objects x self bucket_name of Inl e \<Rightarrow> (None, Some (exn_str e)) | Inr objects \<Rightarrow>
     (case map_exn minio_row objects of Inl e \<Rightarrow> (None, Some (exn_str e)) | Inr rs \<Rightarrow>
        (Some \<lparr>columns = minio_columns, rows = rs\<rparr>, None)))))"

definition base_columns :: "column list" where
  "base_columns =
     [\<lparr>col_name = ''object_name'', col_type = ''string''\<rparr>,
      \<lparr>col_name = ''last_modified'', col_type = ''date''\<rparr>]"

definition base_row :: "(string \<times> 'v) list \<Rightarrow> exn + (string \<times> 'v) list" where
  "base_row obj =
     (case entry_getitem obj ''name'' of Inl e \<Rightarrow> Inl e | Inr n \<Rightarrow>
     (case entry_getitem obj ''last_modified'' of Inl e \<Rightarrow> Inl e | Inr lm \<Rightarrow>
        Inr [(''object_name'', n), (''last_modified'', lm)]))"

text \<open>
  \<open>BaseStorageRunner.run_query(query, user)\<close>, with the configuration and the
  subclass's \<open>list_objects\<close> as parameters.
\<close>

definition base_run_query ::
  "externals \<Rightarrow> (string \<rightharpoonup> pyval) \<Rightarrow> (pyval \<Rightarrow> exn + (string \<times> 'v) list list) \<Rightarrow> string \<Rightarrow> 'u
   \<Rightarrow> 'v tabular_result option \<times> string option" where
  "base_run_query x self_configuration self_list_objects query user =
     (case json_loads x query of Inl e \<Rightarrow> (None, Some (exn_str e)) | Inr query_params \<Rightarrow>
     (case py_get query_params ''bucket''
             (case self_configuration ''bucket'' of Some v \<Rightarrow> v | None \<Rightarrow> PNone) of
        Inl e \<Rightarrow> (None, Some (exn_str e)) | Inr bucket_name \<Rightarrow>
     (case self_list_objects bucket_name of Inl e \<Rightarrow> (None, Some (exn_str e)) | Inr objects \<Rightarrow>
     (case map_exn base_row objects of Inl e \<Rightarrow> (None, Some (exn_str e)) | Inr rs \<Rightarrow>
        (Some \<lparr>columns = base_columns, rows = rs\<rparr>, None)))))"

text \<open>
  The listing of one named bucket, with no fallback: what \<open>list_objects\<close> would return
  if an explicit target always overrode the configured one. It is the body of
  \<open>list_objects\<close> after its first statement.
\<close>

definition explicit_target_listing ::
  "externals \<Rightarrow> 'v minio_runner \<Rightarrow> pyval \<Rightarrow> exn + (string \<times> 'v) list list" where
  "explicit_target_listing x self target =
     (case client_list_objects self target of
        Inr objects \<Rightarrow> Inr (map object_entry objects)
      | Inl e \<Rightarrow>
          Inl (Raise GenericException
                 (''Failed to list objects from bucket '' @ py_str x target @ '': '' @ exn_str e)))"

text \<open>The row of one object, as \<open>run_query\<close> builds it from the entry of \<open>list_objects\<close>.\<close>

definition object_row :: "'v minio_object \<Rightarrow> (string \<times> 'v) list" where
  "object_row obj =
     [(''object_name'', obj_object_name obj),
      (''last_modified'', obj_last_modified obj),
      (''size'', obj_size obj),
      (''etag'', obj_etag obj)]"

subsection \<open>A runner to evaluate on\<close>

text \<open>
  The parser on the commands used below, and a runner configured as in
  tests/storage_runner/test_minio.py: the default bucket is \<open>mock_bucket\<close>; the
  backend holds one object in \<open>test\<close>, two in \<open>mock_bucket\<close>, and rejects any other
  bucket name.
\<close>

definition example_externals :: externals where
  "example_externals =
     \<lparr>json_loads = (\<lambda>s.
        if s = ''{\"bucket\": \"test\"}'' then Inr (PDict [(''bucket'', PStr ''test'')])
        else if s = ''{\"bucket\": \"\"}'' then Inr (PDict [(''bucket'', PStr [])])
        else if s = ''{}'' then Inr (PDict [])
        else if s = ''5'' then Inr (PInt 5)
        else Inl (Raise ValueError ''Expecting value: line 1 column 1 (char 0)'')),
      str_other = (\<lambda>v. ''?'')\<rparr>"

definition file1 :: "pyval minio_object" where
  "file1 = \<lparr>obj_object_name = PStr ''file1.txt'', obj_last_modified = PStr ''2023-09-09'',
            obj_size = PInt 123, obj_etag = PStr ''etag1''\<rparr>"

definition file2 :: "pyval minio_object" where
  "file2 = \<lparr>obj_object_name = PStr ''file2.txt'', obj_last_modified = PStr ''2023-09-10'',
            obj_size = PInt 456, obj_etag = PStr ''etag2''\<rparr>"

definition example_runner :: "pyval minio_runner" where
  "example_runner =
     \<lparr>configuration = [''endpoint'' \<mapsto> PStr ''mock.endpoint'', ''bucket'' \<mapsto> PStr ''mock_bucket''],
      client_list_objects = (\<lambda>b.
        if b = PStr ''test'' then Inr [file1]
        else if b = PStr ''mock_bucket'' then Inr [file1, file2]
        else Inl (Raise ValueError ''invalid bucket name''))\<rparr>"

text \<open>The same runner with a backend that cannot be reached.\<close>

definition unreachable_runner :: "pyval minio_runner" where
  "unreachable_runner =
     example_runner\<lparr>client_list_objects := (\<lambda>b. Inl (Raise GenericException ''Failed to connect''))\<rparr>"

section \<open>The submission endpoint (handlers/custom_sql_api.py)\<close>

text \<open>
  A row of the table \<open>data_sources\<close>, a job of the queue (of which the handler reads
  only \<open>job.result\<close>, None until the job has a result) and a stored query result (of
  which it reads only \<open>query_result.data\<close>).
\<close>

record data_source =
  ds_name :: string
  ds_type :: string

record job =
  job_result :: pyval

record query_result =
  qr_data :: pyval

text \<open>
  What the handler calls and this repository's handler file does not define, for one
  request:
  \<^item> \<open>get_json\<close>: the result of \<open>request.get_json()\<close>;
  \<^item> \<open>data_source_first v\<close>: the result of
    \<open>models.DataSource.query.filter(models.DataSource.name == v).first()\<close>;
  \<^item> \<open>enqueue_query q d\<close>: the job that \<open>enqueue_query\<close> returns;
  \<^item> \<open>refresh k\<close>: the job as the \<open>k\<close>-th call of \<open>job.refresh()\<close> loads it;
  \<^item> \<open>serialize_job j\<close>: the result of \<open>serialize_job(job)\<close>, the argument of the log
    line after the loop;
  \<^item> \<open>query_result_get r\<close>: the result of \<open>models.QueryResult.query.get(r)\<close>.
  Each of them may raise instead. The logger's own calls are not modelled.
\<close>

record request_env =
  get_json :: "exn + pyval"
  data_source_first :: "pyval \<Rightarrow> exn + data_source option"
  enqueue_query :: "pyval \<Rightarrow> data_source \<Rightarrow> exn + job"
  refresh :: "nat \<Rightarrow> exn + job"
  serialize_job :: "job \<Rightarrow> exn + pyval"
  query_result_get :: "pyval \<Rightarrow> exn + query_result option"

text \<open>
  The effects of a request, in order: the call of \<open>enqueue_query\<close> with its query and
  data source, \<open>sleep(n)\<close>, \<open>job.refresh()\<close>.
\<close>

datatype event = Enqueue pyval data_source | Sleep nat | Refresh

text \<open>A response: the dictionary given to \<open>jsonify\<close> and the HTTP status.\<close>

type_synonym response = "pyval \<times> nat"

definition error_messages :: "(string \<times> string) list" where
  "error_messages =
     [(''missing_fields'', ''Request must include 'query' and 'db_name' fields.''),
      (''missing_query'', ''Request must include 'query' fields.''),
      (''missing_db_name'', ''Request must include 'db_name' fields.''),
      (''database_not_found'', ''Database name not found.''),
      (''query_timeout'', ''Query execution timeout.''),
      (''query_execution_failed'', ''Query execution failed.''),
      (''sql_syntax_error'', ''SQL syntax error.''),
      (''internal_server_error'', ''Internal server error occurred. Please try again later.'')]"

text \<open>
  \<open>self.error_messages[key]\<close>. Every lookup of the source is by a literal key of the
  dictionary, so none fails.
\<close>

definition error_message :: "string \<Rightarrow> string" where
  "error_message k = the (map_of error_messages k)"

definition error_response :: "string \<Rightarrow> nat \<Rightarrow> response" where
  "error_response message http_status =
     (PDict [(''status'', PStr ''fail''), (''message'', PStr message)], http_status)"

text \<open>
  The polling loop
  \<^verbatim>\<open>while job.result is None and try_count < 10: try_count += 1; sleep(1); job.refresh()\<close>
  from the job and the counter at the loop head: the job at the exit of the loop, or the
  exception of a refresh, with the effects of the loop.
\<close>

function poll :: "request_env \<Rightarrow> job \<Rightarrow> nat \<Rightarrow> (exn + job) \<times> event list" where
  "poll e job try_count =
     (if job_result job = PNone \<and> try_count < 10 then
        (case refresh e (try_count + 1) of
           Inl x \<Rightarrow> (Inl x, [Sleep 1, Refresh])
         | Inr job' \<Rightarrow>
             (case poll e job' (try_count + 1) of (r, tr) \<Rightarrow> (r, Sleep 1 # Refresh # tr)))
      else (Inr job, []))"
  by pat_completeness auto
termination
  by (relation "measure (\<lambda>(e, job, try_count). 10 - try_count)") auto

text \<open>
  The end of the body of \<open>try\<close>, after the loop and its log line: the timeout response
  when the job still has no result, else the stored result looked up by the job's
  result reference.
\<close>

definition resolve :: "request_env \<Rightarrow> job \<Rightarrow> exn + response" where
  "resolve e job =
     (if job_result job = PNone then Inr (error_response (error_message ''query_timeout'') 408)
      else
        (case query_result_get e (job_result job) of
           Inl x \<Rightarrow> Inl x
         | Inr None \<Rightarrow> Inr (error_response (error_message ''query_execution_failed'') 500)
         | Inr (Some query_result) \<Rightarrow>
             (case py_getitem (qr_data query_result) ''rows'' of
                Inl x \<Rightarrow> Inl x
              | Inr result_rows \<Rightarrow>
                  Inr (PDict [(''status'', PStr ''success''), (''result'', result_rows)], 200))))"

text \<open>
  The body of \<open>try\<close> from the lookup of the data source on: the response it returns or
  the exception that leaves it, with the effects up to there. After the loop the job is
  serialized for the log line, before the timeout test.
\<close>

definition submit :: "request_env \<Rightarrow> pyval \<Rightarrow> pyval \<Rightarrow> (exn + response) \<times> event list" where
  "submit e query_text db_name =
     (case data_source_first e db_name of
        Inl x \<Rightarrow> (Inl x, [])
      | Inr None \<Rightarrow> (Inr (error_response (error_message ''database_not_found'') 404), [])
      | Inr (Some data_source) \<Rightarrow>
          (case enqueue_query e query_text data_source of
             Inl x \<Rightarrow> (Inl x, [Enqueue query_text data_source])
           | Inr job0 \<Rightarrow>
               (case poll e job0 0 of
                  (Inl x, tr) \<Rightarrow> (Inl x, Enqueue query_text data_source # tr)
                | (Inr job, tr) \<Rightarrow>
                    (case serialize_job e job of
                       Inl x \<Rightarrow> (Inl x, Enqueue query_text data_source # tr)
                     | Inr logged \<Rightarrow> (resolve e job, Enqueue query_text data_source # tr)))))"

text \<open>The body of \<open>try\<close> in \<open>post\<close>, from its first statement.\<close>

definition post_try :: "request_env \<Rightarrow> (exn + response) \<times> event list" where
  "post_try e =
     (case get_json e of Inl x \<Rightarrow> (Inl x, []) | Inr query_data \<Rightarrow>
     (if \<not> truthy query_data then
        (Inr (error_response (error_message ''missing_fields'') 400), [])
      else
     (case py_in ''query'' query_data of Inl x \<Rightarrow> (Inl x, []) | Inr has_query \<Rightarrow>
     (if \<not> has_query then
        (Inr (error_response (error_message ''missing_query'') 400), [])
      else
     (case py_in ''db_name'' query_data of Inl x \<Rightarrow> (Inl x, []) | Inr has_db_name \<Rightarrow>
     (if \<not> has_db_name then
        (Inr (error_response (error_message ''missing_db_name'') 400), [])
      else
     (case py_get query_data ''query'' PNone of Inl x \<Rightarrow> (Inl x, []) | Inr query_text \<Rightarrow>
     (case py_get query_data ''db_name'' PNone of Inl x \<Rightarrow> (Inl x, []) | Inr db_name \<Rightarrow>
        submit e query_text db_name))))))))"

text \<open>
  \<open>PublicSQLExecutionResource.post\<close>: the two handlers turn an exception of the body
  into the SQL-syntax response (a \<open>ProgrammingError\<close>) or the internal-error response
  (any other exception).
\<close>

definition post :: "request_env \<Rightarrow> response \<times> event list" where
  "post e =
     (case post_try e of
        (Inr resp, tr) \<Rightarrow> (resp, tr)
      | (Inl x, tr) \<Rightarrow>
          if exn_class_of x = ProgrammingError
          then (error_response (error_message ''sql_syntax_error'') 400, tr)
          else (error_response (error_message ''internal_server_error'') 500, tr))"

subsection \<open>Requests to evaluate on\<close>

text \<open>
  One data source, named \<open>lake\<close>, of type \<open>s3\<close>. The request names it; its job has a
  result, stored under the reference 42, from the third refresh on.
\<close>

definition lake :: data_source where
  "lake = \<lparr>ds_name = ''lake'', ds_type = ''s3''\<rparr>"

definition stored_rows :: pyval where
  "stored_rows = PList [PDict [(''object_name'', PStr ''file1.txt''), (''size'', PInt 123)]]"

definition example_env :: request_env where
  "example_env =
     \<lparr>get_json = Inr (PDict [(''query'', PStr ''{}''), (''db_name'', PStr ''lake'')]),
      data_source_first = (\<lambda>v. Inr (find (\<lambda>d. PStr (ds_name d) = v) [lake])),
      enqueue_query = (\<lambda>q d. Inr \<lparr>job_result = PNone\<rparr>),
      refresh = (\<lambda>k. Inr \<lparr>job_result = (if k < 3 then PNone else PInt 42)\<rparr>),
      serialize_job = (\<lambda>j. Inr (PDict [(''job'', PDict [(''result'', job_result j)])])),
      query_result_get = (\<lambda>r. Inr (if r = PInt 42
         then Some \<lparr>qr_data = PDict [(''columns'', PList []), (''rows'', stored_rows)]\<rparr>
         else None))\<rparr>"




text \<open>
  Requests for the same data source with other bodies: a body with neither field, an
  empty body, a body with only one of the fields, and a body that names no data source.
\<close>

definition stray_env :: request_env where
  "stray_env = example_env\<lparr>get_json := Inr (PDict [(''foo'', PStr ''bar'')])\<rparr>"

definition empty_env :: request_env where
  "empty_env = example_env\<lparr>get_json := Inr (PDict [])\<rparr>"

definition query_only_env :: request_env where
  "query_only_env = example_env\<lparr>get_json := Inr (PDict [(''query'', PStr ''x'')])\<rparr>"

definition db_name_only_env :: request_env where
  "db_name_only_env = example_env\<lparr>get_json := Inr (PDict [(''db_name'', PStr ''lake'')])\<rparr>"

definition unknown_env :: request_env where
  "unknown_env =
     example_env\<lparr>get_json := Inr (PDict [(''query'', PStr ''{}''), (''db_name'', PStr ''nope'')])\<rparr>"

text \<open>
  A \<open>list_objects\<close> of some other subclass of the base runner, whose entries lack the
  key \<open>last_modified\<close>.
\<close>

definition undated_listing :: "pyval \<Rightarrow> exn + (string \<times> pyval) list list" where
  "undated_listing bucket_name = Inr [[(''name'', PStr ''a.txt'')]]"

text \<open>
  Requests whose body is the number 5, and whose body \<open>request.get_json()\<close> refuses
  with an exception.
\<close>

definition number_env :: request_env where
  "number_env = example_env\<lparr>get_json := Inr (PInt 5)\<rparr>"

definition unparsed_env :: request_env where
  "unparsed_env = example_env\<lparr>get_json := Inl (Raise GenericException ''400 Bad Request'')\<rparr>"

section \<open>Properties of the registry\<close>

text \<open>
  Claim C9. For two enabled runner classes A and B that report the same type string,
  registering A and then B leaves the lookup of that type string at B, whatever the
  registry held before: the later registration overwrites the earlier one.
\<close>

theorem register_storage_last_wins:
  assumes "cls_enabled A" and "cls_enabled B" and "cls_type A = cls_type B"
  shows "register_storage (register_storage reg A) B (cls_type A) = Some B"
  using assms by (simp add: register_storage_def)

theorem register_storage_last_wins_witness:
  "cls_enabled (MinioRunner True)
   \<and> cls_enabled (MinioRunner True\<lparr>cls_id := 1, cls_name := ''Other''\<rparr>)
   \<and> cls_type (MinioRunner True) = cls_type (MinioRunner True\<lparr>cls_id := 1, cls_name := ''Other''\<rparr>)
   \<and> MinioRunner True \<noteq> MinioRunner True\<lparr>cls_id := 1, cls_name := ''Other''\<rparr>
   \<and> register_storage (register_storage storage_runners (MinioRunner True))
        (MinioRunner True\<lparr>cls_id := 1, cls_name := ''Other''\<rparr>) ''minio''
      = Some (MinioRunner True\<lparr>cls_id := 1, cls_name := ''Other''\<rparr>)"
  using register_storage_last_wins
    [of "MinioRunner True" "MinioRunner True\<lparr>cls_id := 1, cls_name := ''Other''\<rparr>" storage_runners]
  by (simp add: MinioRunner_def)

text \<open>
  Claim C10. \<open>register_storage\<close> preserves the invariant that every key of the registry
  maps to a class whose \<open>type()\<close> is that key; and registering a class that reports
  \<open>enabled()\<close> false leaves the registry unchanged, so that a class already stored
  under the same type string stays.
\<close>

theorem register_storage_invariant:
  "(registry_inv reg \<longrightarrow> registry_inv (register_storage reg c))
   \<and> (\<not> cls_enabled c \<longrightarrow> register_storage reg c = reg)"
  by (auto simp: registry_inv_def register_storage_def)

theorem register_storage_invariant_witness:
  "registry_inv (register_storage storage_runners (MinioRunner True))
   \<and> registry_inv (register_storage (register_storage storage_runners (MinioRunner True))
        (MinioRunner False\<lparr>cls_id := 1\<rparr>))
   \<and> \<not> cls_enabled (MinioRunner False\<lparr>cls_id := 1\<rparr>)
   \<and> register_storage (register_storage storage_runners (MinioRunner True))
        (MinioRunner False\<lparr>cls_id := 1\<rparr>) ''minio'' = Some (MinioRunner True)"
proof -
  let ?r = "register_storage storage_runners (MinioRunner True)"
  let ?d = "MinioRunner False\<lparr>cls_id := 1\<rparr>"
  have inv0: "registry_inv ?r"
    by (simp add: registry_inv_def register_storage_def storage_runners_def MinioRunner_def)
  have dis: "\<not> cls_enabled ?d"
    by (simp add: MinioRunner_def)
  from register_storage_invariant [of ?r ?d] inv0 dis
  have "registry_inv (register_storage ?r ?d)" and "register_storage ?r ?d = ?r"
    by blast+
  moreover have "?r ''minio'' = Some (MinioRunner True)"
    by (simp add: register_storage_def MinioRunner_def)
  ultimately show ?thesis using inv0 dis by simp
qed

section \<open>Properties of the runners\<close>

lemma str_contains_self: "str_contains m m"
  by (cases m) simp_all

lemma str_contains_suffix: "str_contains (p @ m) m"
  by (induction p) (simp_all add: str_contains_self)

lemma py_or_same: "py_or b b = b"
  by (simp add: py_or_def)

lemma py_or_truthy: "truthy b \<Longrightarrow> py_or b d = b"
  by (simp add: py_or_def)

lemma py_or_falsy: "\<not> truthy b \<Longrightarrow> py_or b d = d"
  by (simp add: py_or_def)

lemma minio_row_keys:
  "minio_row obj = Inr row \<Longrightarrow> map fst row = [''object_name'', ''last_modified'', ''size'', ''etag'']"
  by (auto simp: minio_row_def split: sum.splits)

lemma minio_row_entry: "minio_row (object_entry obj) = Inr (object_row obj)"
  by (simp add: minio_row_def object_entry_def object_row_def entry_getitem_def)

lemma map_exn_Inr_set:
  "map_exn f as = Inr bs \<Longrightarrow> b \<in> set bs \<Longrightarrow> \<exists>a \<in> set as. f a = Inr b"
proof (induction as arbitrary: bs)
  case Nil
  then show ?case by simp
next
  case (Cons a as)
  then show ?case by (auto split: sum.splits)
qed

lemma map_exn_entries: "map_exn minio_row (map object_entry objs) = Inr (map object_row objs)"
  by (induction objs) (simp_all add: minio_row_entry)

lemma list_objects_truthy:
  "truthy b \<Longrightarrow> list_objects x self b = explicit_target_listing x self b"
  by (simp add: list_objects_def explicit_target_listing_def py_or_truthy)

lemma list_objects_falsy:
  "\<not> truthy b \<Longrightarrow>
   list_objects x self b = explicit_target_listing x self (configuration_get self ''bucket'')"
  by (simp add: list_objects_def explicit_target_listing_def py_or_falsy Let_def)

text \<open>
  Claim C2. \<open>run_query\<close> (of the MinIO runner and of the base class) never raises: for
  every command string and caller context it returns either a result with no error, or
  no result with an error string. Whichever step fails first (parsing the command,
  reading its \<open>bucket\<close>, listing the objects, building a row), the result is no result
  and the message of that step's exception; when every step succeeds, the result is the
  table of the rows built and no error.
\<close>

theorem run_query_never_raises:
  "((\<exists>res. run_query x self q u = (Some res, None)) \<or> (\<exists>m. run_query x self q u = (None, Some m)))
   \<and> ((\<exists>res. base_run_query x cfg lo q u = (Some res, None))
        \<or> (\<exists>m. base_run_query x cfg lo q u = (None, Some m)))
   \<and> (\<forall>e. json_loads x q = Inl e \<longrightarrow>
          run_query x self q u = (None, Some (exn_str e))
          \<and> base_run_query x cfg lo q u = (None, Some (exn_str e)))
   \<and> (\<forall>params. json_loads x q = Inr params \<longrightarrow>
          (\<forall>e. py_get params ''bucket'' (configuration_get self ''bucket'') = Inl e \<longrightarrow>
                run_query x self q u = (None, Some (exn_str e)))
        \<and> (\<forall>b. py_get params ''bucket'' (configuration_get self ''bucket'') = Inr b \<longrightarrow>
              (\<forall>e. list_objects x self b = Inl e \<longrightarrow>
                    run_query x self q u = (None, Some (exn_str e)))
            \<and> (\<forall>objects. list_objects x self b = Inr objects \<longrightarrow>
                  (\<forall>e. map_exn minio_row objects = Inl e \<longrightarrow>
                        run_query x self q u = (None, Some (exn_str e)))
                \<and> (\<forall>rs. map_exn minio_row objects = Inr rs \<longrightarrow>
                        run_query x self q u
                        = (Some \<lparr>columns = minio_columns, rows = rs\<rparr>, None)))))
   \<and> (\<forall>params. json_loads x q = Inr params \<longrightarrow>
          (\<forall>e. py_get params ''bucket'' (case cfg ''bucket'' of Some v \<Rightarrow> v | None \<Rightarrow> PNone) = Inl e \<longrightarrow>
                base_run_query x cfg lo q u = (None, Some (exn_str e)))
        \<and> (\<forall>b. py_get params ''bucket'' (case cfg ''bucket'' of Some v \<Rightarrow> v | None \<Rightarrow> PNone) = Inr b \<longrightarrow>
              (\<forall>e. lo b = Inl e \<longrightarrow> base_run_query x cfg lo q u = (None, Some (exn_str e)))
            \<and> (\<forall>objects. lo b = Inr objects \<longrightarrow>
                  (\<forall>e. map_exn base_row objects = Inl e \<longrightarrow>
                        base_run_query x cfg lo q u = (None, Some (exn_str e)))
                \<and> (\<forall>rs. map_exn base_row objects = Inr rs \<longrightarrow>
                        base_run_query x cfg lo q u
                        = (Some \<lparr>columns = base_columns, rows = rs\<rparr>, None)))))"
proof (intro conjI)
  show "(\<exists>res. run_query x self q u = (Some res, None)) \<or> (\<exists>m. run_query x self q u = (None, Some m))"
    by (simp add: run_query_def split: sum.splits)
  show "(\<exists>res. base_run_query x cfg lo q u = (Some res, None))
        \<or> (\<exists>m. base_run_query x cfg lo q u = (None, Some m))"
    by (simp add: base_run_query_def split: sum.splits)
  show "\<forall>e. json_loads x q = Inl e \<longrightarrow>
          run_query x self q u = (None, Some (exn_str e))
          \<and> base_run_query x cfg lo q u = (None, Some (exn_str e))"
    by (simp add: run_query_def base_run_query_def)
  show "\<forall>params. json_loads x q = Inr params \<longrightarrow>
          (\<forall>e. py_get params ''bucket'' (configuration_get self ''bucket'') = Inl e \<longrightarrow>
                run_query x self q u = (None, Some (exn_str e)))
        \<and> (\<forall>b. py_get params ''bucket'' (configuration_get self ''bucket'') = Inr b \<longrightarrow>
              (\<forall>e. list_objects x self b = Inl e \<longrightarrow>
                    run_query x self q u = (None, Some (exn_str e)))
            \<and> (\<forall>objects. list_objects x self b = Inr objects \<longrightarrow>
                  (\<forall>e. map_exn minio_row objects = Inl e \<longrightarrow>
                        run_query x self q u = (None, Some (exn_str e)))
                \<and> (\<forall>rs. map_exn minio_row objects = Inr rs \<longrightarrow>
                        run_query x self q u
                        = (Some \<lparr>columns = minio_columns, rows = rs\<rparr>, None))))"
    by (simp add: run_query_def)
  show "\<forall>params. json_loads x q = Inr params \<longrightarrow>
          (\<forall>e. py_get params ''bucket'' (case cfg ''bucket'' of Some v \<Rightarrow> v | None \<Rightarrow> PNone) = Inl e \<longrightarrow>
                base_run_query x cfg lo q u = (None, Some (exn_str e)))
        \<and> (\<forall>b. py_get params ''bucket'' (case cfg ''bucket'' of Some v \<Rightarrow> v | None \<Rightarrow> PNone) = Inr b \<longrightarrow>
              (\<forall>e. lo b = Inl e \<longrightarrow> base_run_query x cfg lo q u = (None, Some (exn_str e)))
            \<and> (\<forall>objects. lo b = Inr objects \<longrightarrow>
                  (\<forall>e. map_exn base_row objects = Inl e \<longrightarrow>
                        base_run_query x cfg lo q u = (None, Some (exn_str e)))
                \<and> (\<forall>rs. map_exn base_row objects = Inr rs \<longrightarrow>
                        base_run_query x cfg lo q u
                        = (Some \<lparr>columns = base_columns, rows = rs\<rparr>, None))))"
    by (simp add: base_run_query_def)
qed

theorem run_query_never_raises_witness:
  "run_query example_externals example_runner ''not json'' ()
     = (None, Some ''Expecting value: line 1 column 1 (char 0)'')
   \<and> base_run_query example_externals (configuration example_runner) undated_listing ''not json'' ()
     = (None, Some ''Expecting value: line 1 column 1 (char 0)'')
   \<and> run_query example_externals example_runner ''5'' ()
     = (None, Some ([CHR 0x27] @ ''int'' @ [CHR 0x27] @ '' object has no attribute ''
                    @ [CHR 0x27] @ ''get'' @ [CHR 0x27]))
   \<and> run_query example_externals unreachable_runner ''{}'' ()
     = (None, Some ''Failed to list objects from bucket mock_bucket: Failed to connect'')
   \<and> run_query example_externals example_runner ''{\"bucket\": \"test\"}'' ()
     = (Some \<lparr>columns = minio_columns, rows = [object_row file1]\<rparr>, None)
   \<and> base_run_query example_externals (configuration example_runner) undated_listing ''{}'' ()
     = (None, Some ([CHR 0x27] @ ''last_modified'' @ [CHR 0x27]))"
proof -
  let ?x = example_externals
  let ?cfg = "configuration example_runner"
  have j0: "json_loads ?x ''not json''
            = Inl (Raise ValueError ''Expecting value: line 1 column 1 (char 0)'')"
    and j5: "json_loads ?x ''5'' = Inr (PInt 5)"
    and je: "json_loads ?x ''{}'' = Inr (PDict [])"
    and jt: "json_loads ?x ''{\"bucket\": \"test\"}'' = Inr (PDict [(''bucket'', PStr ''test'')])"
    by (simp_all add: example_externals_def)
  have g5: "py_get (PInt 5) ''bucket'' (configuration_get example_runner ''bucket'')
            = Inl (no_attribute (PInt 5) ''get'')"
    by simp
  have ge: "py_get (PDict []) ''bucket'' (configuration_get unreachable_runner ''bucket'')
            = Inr (PStr ''mock_bucket'')"
    and gt: "py_get (PDict [(''bucket'', PStr ''test'')]) ''bucket''
               (configuration_get example_runner ''bucket'') = Inr (PStr ''test'')"
    and gb: "py_get (PDict []) ''bucket'' (case ?cfg ''bucket'' of Some v \<Rightarrow> v | None \<Rightarrow> PNone)
             = Inr (PStr ''mock_bucket'')"
    by (simp_all add: unreachable_runner_def example_runner_def configuration_get_def)
  have le: "list_objects ?x unreachable_runner (PStr ''mock_bucket'')
            = Inl (Raise GenericException
                     ''Failed to list objects from bucket mock_bucket: Failed to connect'')"
    by (simp add: list_objects_def unreachable_runner_def example_runner_def
        configuration_get_def py_or_def)
  have lt: "list_objects ?x example_runner (PStr ''test'') = Inr [object_entry file1]"
    by (simp add: list_objects_def example_runner_def configuration_get_def py_or_def)
  have mt: "map_exn minio_row [object_entry file1] = Inr [object_row file1]"
    using map_exn_entries [of "[file1]"] by simp
  have lb: "undated_listing (PStr ''mock_bucket'') = Inr [[(''name'', PStr ''a.txt'')]]"
    by (simp add: undated_listing_def)
  have mb: "map_exn base_row [[(''name'', PStr ''a.txt'')]]
            = Inl (Raise KeyError ([CHR 0x27] @ ''last_modified'' @ [CHR 0x27]))"
    by (simp add: base_row_def entry_getitem_def)
  from run_query_never_raises [of ?x example_runner "''not json''" "()" ?cfg undated_listing] j0
  have w0: "run_query ?x example_runner ''not json'' ()
              = (None, Some ''Expecting value: line 1 column 1 (char 0)'')
            \<and> base_run_query ?x ?cfg undated_listing ''not json'' ()
              = (None, Some ''Expecting value: line 1 column 1 (char 0)'')"
    by simp
  from run_query_never_raises [of ?x example_runner "''5''" "()" ?cfg undated_listing] j5 g5
  have w5: "run_query ?x example_runner ''5'' ()
              = (None, Some (exn_str (no_attribute (PInt 5) ''get'')))"
    by blast
  from run_query_never_raises [of ?x unreachable_runner "''{}''" "()" ?cfg undated_listing] je ge le
  have we: "run_query ?x unreachable_runner ''{}'' ()
              = (None, Some (exn_str (Raise GenericException
                     ''Failed to list objects from bucket mock_bucket: Failed to connect'')))"
    by blast
  from run_query_never_raises [of ?x unreachable_runner "''{}''" "()" ?cfg undated_listing] je gb lb mb
  have wb: "base_run_query ?x ?cfg undated_listing ''{}'' ()
              = (None, Some (exn_str (Raise KeyError ([CHR 0x27] @ ''last_modified'' @ [CHR 0x27]))))"
    by blast
  from run_query_never_raises
         [of ?x example_runner "''{\"bucket\": \"test\"}''" "()" ?cfg undated_listing] jt gt lt mt
  have wt: "run_query ?x example_runner ''{\"bucket\": \"test\"}'' ()
              = (Some \<lparr>columns = minio_columns, rows = [object_row file1]\<rparr>, None)"
    by blast
  from w0 w5 we wb wt show ?thesis
    by (simp add: no_attribute_def)
qed

text \<open>
  Claim C5, as stated: an explicit per-call target overrides the configured default
  target whatever the explicit value is. It fails for the empty bucket name: the
  runner lists the configured bucket \<open>mock_bucket\<close> instead of the bucket named.
\<close>

theorem explicit_target_counterexample:
  "list_objects example_externals example_runner (PStr [])
     = Inr [object_entry file1, object_entry file2]
   \<and> explicit_target_listing example_externals example_runner (PStr [])
     = Inl (Raise GenericException ''Failed to list objects from bucket : invalid bucket name'')
   \<and> list_objects example_externals example_runner (PStr [])
     = explicit_target_listing example_externals example_runner (PStr ''mock_bucket'')
   \<and> run_query example_externals example_runner ''{\"bucket\": \"\"}'' ()
     = (Some \<lparr>columns = minio_columns, rows = [object_row file1, object_row file2]\<rparr>, None)"
  by (simp add: list_objects_def explicit_target_listing_def run_query_def example_externals_def
      example_runner_def configuration_get_def py_or_def minio_row_entry)

text \<open>
  Claim C5, amended. For every explicit target that is truthy (not None, not empty, not
  zero, not false), \<open>list_objects(target)\<close> lists that target, and \<open>run_query\<close> with a
  command whose \<open>bucket\<close> is that target lists it, whatever the configured default. A
  falsy explicit target is replaced by the configured default.
\<close>

theorem explicit_truthy_target_overrides:
  "(truthy b \<longrightarrow> list_objects x self b = explicit_target_listing x self b)
   \<and> (json_loads x q = Inr (PDict kvs) \<and> map_of kvs ''bucket'' = Some b \<and> truthy b \<longrightarrow>
        run_query x self q u =
          (case client_list_objects self b of
             Inr objs \<Rightarrow> (Some \<lparr>columns = minio_columns, rows = map object_row objs\<rparr>, None)
           | Inl e \<Rightarrow>
               (None, Some (''Failed to list objects from bucket '' @ py_str x b @ '': '' @ exn_str e))))
   \<and> (\<not> truthy b \<longrightarrow>
        list_objects x self b = explicit_target_listing x self (configuration_get self ''bucket''))"
proof (intro conjI impI)
  show "list_objects x self b = explicit_target_listing x self b" if "truthy b"
    using that by (rule list_objects_truthy)
  show "list_objects x self b = explicit_target_listing x self (configuration_get self ''bucket'')"
    if "\<not> truthy b"
    using that by (rule list_objects_falsy)
next
  assume h: "json_loads x q = Inr (PDict kvs) \<and> map_of kvs ''bucket'' = Some b \<and> truthy b"
  then have l: "list_objects x self b = explicit_target_listing x self b"
    by (simp add: list_objects_truthy)
  show "run_query x self q u =
          (case client_list_objects self b of
             Inr objs \<Rightarrow> (Some \<lparr>columns = minio_columns, rows = map object_row objs\<rparr>, None)
           | Inl e \<Rightarrow>
               (None, Some (''Failed to list objects from bucket '' @ py_str x b @ '': '' @ exn_str e)))"
    using h
    by (simp add: run_query_def l explicit_target_listing_def map_exn_entries split: sum.splits)
qed

theorem explicit_truthy_target_overrides_witness:
  "truthy (PStr ''test'')
   \<and> configuration_get example_runner ''bucket'' = PStr ''mock_bucket''
   \<and> list_objects example_externals example_runner (PStr ''test'') = Inr [object_entry file1]
   \<and> run_query example_externals example_runner ''{\"bucket\": \"test\"}'' ()
       = (Some \<lparr>columns = minio_columns, rows = [object_row file1]\<rparr>, None)
   \<and> \<not> truthy PNone
   \<and> list_objects example_externals example_runner PNone
       = Inr [object_entry file1, object_entry file2]"
proof -
  have j: "json_loads example_externals ''{\"bucket\": \"test\"}''
           = Inr (PDict [(''bucket'', PStr ''test'')])"
    by (simp add: example_externals_def)
  have c: "client_list_objects example_runner (PStr ''test'') = Inr [file1]"
    by (simp add: example_runner_def)
  have d: "configuration_get example_runner ''bucket'' = PStr ''mock_bucket''"
    by (simp add: example_runner_def configuration_get_def)
  have c': "client_list_objects example_runner (PStr ''mock_bucket'') = Inr [file1, file2]"
    by (simp add: example_runner_def)
  from explicit_truthy_target_overrides
         [of "PStr ''test''" example_externals example_runner "''{\"bucket\": \"test\"}''"
             "[(''bucket'', PStr ''test'')]" "()"]
       explicit_truthy_target_overrides
         [of PNone example_externals example_runner "''{}''" "[]" "()"]
       j c c' d
  show ?thesis by (simp add: explicit_target_listing_def)
qed

text \<open>
  Claim C6. For every runner configuration and every fixed backend, \<open>list_objects()\<close>
  with no explicit target (the default argument None) returns what \<open>list_objects(b)\<close>
  returns for \<open>b\<close> the configured default bucket.
\<close>

theorem list_objects_default_target:
  "list_objects x self PNone = list_objects x self (configuration_get self ''bucket'')"
  by (simp add: list_objects_def py_or_same py_or_falsy)

lemma run_query_Some:
  assumes "run_query x self q u = (Some res, err)"
  shows "\<exists>objects rs. map_exn minio_row objects = Inr rs
                      \<and> res = \<lparr>columns = minio_columns, rows = rs\<rparr>"
proof (cases "json_loads x q")
  case (Inl e)
  with assms show ?thesis by (simp add: run_query_def)
next
  case j: (Inr query_params)
  show ?thesis
  proof (cases "py_get query_params ''bucket'' (configuration_get self ''bucket'')")
    case (Inl e)
    with assms j show ?thesis by (simp add: run_query_def)
  next
    case g: (Inr bucket_name)
    show ?thesis
    proof (cases "list_objects x self bucket_name")
      case (Inl e)
      with assms j g show ?thesis by (simp add: run_query_def)
    next
      case l: (Inr objects)
      show ?thesis
      proof (cases "map_exn minio_row objects")
        case (Inl e)
        with assms j g l show ?thesis by (simp add: run_query_def)
      next
        case (Inr rs)
        with assms j g l have "res = \<lparr>columns = minio_columns, rows = rs\<rparr>"
          by (simp add: run_query_def)
        with Inr show ?thesis by blast
      qed
    qed
  qed
qed

lemma minio_column_names:
  "map col_name minio_columns = [''object_name'', ''last_modified'', ''size'', ''etag'']"
  by (simp add: minio_columns_def)

lemma minio_names_distinct: "distinct [''object_name'', ''last_modified'', ''size'', ''etag'']"
  by simp

lemma minio_names_set:
  "set [''object_name'', ''last_modified'', ''size'', ''etag'']
   = {''object_name'', ''last_modified'', ''size'', ''etag''}"
  by (simp only: list.set)

text \<open>
  Claim C7. The columns that the MinIO runner declares are \<open>object_name\<close>,
  \<open>last_modified\<close>, \<open>size\<close> and \<open>etag\<close>, and every row of a result of \<open>run_query\<close> has
  exactly these keys, each once. Whenever the backend returns an object list for the
  resolved bucket, \<open>run_query\<close> returns such a result, with one row for each object.
\<close>

theorem run_query_rows_match_columns:
  "(run_query x self q u = (Some res, err) \<longrightarrow>
      set (map col_name (columns res)) = {''object_name'', ''last_modified'', ''size'', ''etag''}
      \<and> (\<forall>row \<in> set (rows res).
            set (map fst row) = set (map col_name (columns res)) \<and> distinct (map fst row)))
   \<and> (json_loads x q = Inr params
        \<and> py_get params ''bucket'' (configuration_get self ''bucket'') = Inr b
        \<and> client_list_objects self (py_or b (configuration_get self ''bucket'')) = Inr objs \<longrightarrow>
      run_query x self q u = (Some \<lparr>columns = minio_columns, rows = map object_row objs\<rparr>, None))"
proof (intro conjI impI)
  assume r: "run_query x self q u = (Some res, err)"
  from run_query_Some [OF r] obtain objects rs where m: "map_exn minio_row objects = Inr rs"
    and res: "res = \<lparr>columns = minio_columns, rows = rs\<rparr>"
    by (elim exE conjE)
  from res have cols: "map col_name (columns res) = [''object_name'', ''last_modified'', ''size'', ''etag'']"
    by (simp add: minio_column_names)
  show "set (map col_name (columns res)) = {''object_name'', ''last_modified'', ''size'', ''etag''}"
    by (simp only: cols minio_names_set)
  show "\<forall>row \<in> set (rows res).
          set (map fst row) = set (map col_name (columns res)) \<and> distinct (map fst row)"
  proof
    fix row assume "row \<in> set (rows res)"
    with res have "row \<in> set rs" by simp
    then have "\<exists>a \<in> set objects. minio_row a = Inr row"
      by (rule map_exn_Inr_set [OF m])
    then obtain obj where "minio_row obj = Inr row" ..
    then have "map fst row = [''object_name'', ''last_modified'', ''size'', ''etag'']"
      by (rule minio_row_keys)
    then show "set (map fst row) = set (map col_name (columns res)) \<and> distinct (map fst row)"
      using minio_names_distinct by (simp only: cols simp_thms)
  qed
next
  assume "json_loads x q = Inr params
        \<and> py_get params ''bucket'' (configuration_get self ''bucket'') = Inr b
        \<and> client_list_objects self (py_or b (configuration_get self ''bucket'')) = Inr objs"
  then show "run_query x self q u
             = (Some \<lparr>columns = minio_columns, rows = map object_row objs\<rparr>, None)"
    by (simp add: run_query_def list_objects_def map_exn_entries)
qed

theorem run_query_rows_match_columns_witness:
  "run_query example_externals example_runner ''{}'' ()
     = (Some \<lparr>columns = minio_columns, rows = [object_row file1, object_row file2]\<rparr>, None)
   \<and> set (map fst (object_row file1)) = set (map col_name minio_columns)
   \<and> distinct (map fst (object_row file1))
   \<and> set (map fst (object_row file2)) = set (map col_name minio_columns)
   \<and> distinct (map fst (object_row file2))"
proof -
  let ?res = "\<lparr>columns = minio_columns, rows = [object_row file1, object_row file2]\<rparr>"
  have j: "json_loads example_externals ''{}'' = Inr (PDict [])"
    by (simp add: example_externals_def)
  have g: "py_get (PDict []) ''bucket'' (configuration_get example_runner ''bucket'')
           = Inr (PStr ''mock_bucket'')"
    by (simp add: example_runner_def configuration_get_def)
  have c: "client_list_objects example_runner
             (py_or (PStr ''mock_bucket'') (configuration_get example_runner ''bucket''))
           = Inr [file1, file2]"
    by (simp add: example_runner_def py_or_def)
  have run: "run_query example_externals example_runner ''{}'' () = (Some ?res, None)"
    using run_query_rows_match_columns
            [of example_externals example_runner "''{}''" "()" ?res None "PDict []"
                "PStr ''mock_bucket''" "[file1, file2]"] j g c
    by (simp only: simp_thms list.map)
  have "\<forall>row \<in> set (rows ?res).
          set (map fst row) = set (map col_name (columns ?res)) \<and> distinct (map fst row)"
    using run_query_rows_match_columns
            [of example_externals example_runner "''{}''" "()" ?res None "PDict []"
                "PStr ''mock_bucket''" "[file1, file2]"] run
    by blast
  then have all: "\<forall>row \<in> set [object_row file1, object_row file2].
          set (map fst row) = set (map col_name minio_columns) \<and> distinct (map fst row)"
    by (simp only: tabular_result.simps)
  have "object_row file1 \<in> set [object_row file1, object_row file2]"
    and "object_row file2 \<in> set [object_row file1, object_row file2]"
    by (simp_all only: list.set insert_iff simp_thms)
  with all run show ?thesis by blast
qed

text \<open>
  Claim C8. \<open>test_connection()\<close> returns True exactly when \<open>list_objects()\<close> does not
  raise, and it returns nothing but True; when \<open>list_objects()\<close> raises with message
  \<open>m\<close>, \<open>test_connection()\<close> raises an Exception whose message is a fixed
  connectivity-failure prefix followed by \<open>m\<close>, and so contains \<open>m\<close>. The same holds
  for the method of the base class, for any \<open>list_objects\<close> of a subclass.
\<close>

theorem test_connection_iff_list_objects:
  "(test_connection x self = Inr True \<longleftrightarrow> (\<exists>objs. list_objects x self PNone = Inr objs))
   \<and> (\<forall>r. test_connection x self = Inr r \<longrightarrow> r)
   \<and> (\<forall>e. list_objects x self PNone = Inl e \<longrightarrow>
          test_connection x self
            = Inl (Raise GenericException (''MinIO connection test failed: '' @ exn_str e))
          \<and> (\<exists>c m. test_connection x self = Inl (Raise c m) \<and> str_contains m (exn_str e)))
   \<and> (base_test_connection lo = Inr True \<longleftrightarrow> (\<exists>objs. lo PNone = Inr objs))
   \<and> (\<forall>r. base_test_connection lo = Inr r \<longrightarrow> r)
   \<and> (\<forall>e. lo PNone = Inl e \<longrightarrow>
          base_test_connection lo
            = Inl (Raise GenericException (''Failed to connect to the storage: '' @ exn_str e))
          \<and> (\<exists>c m. base_test_connection lo = Inl (Raise c m) \<and> str_contains m (exn_str e)))"
proof (intro conjI allI impI)
  show "test_connection x self = Inr True \<longleftrightarrow> (\<exists>objs. list_objects x self PNone = Inr objs)"
    by (cases "list_objects x self PNone") (simp_all add: test_connection_def)
  show "base_test_connection lo = Inr True \<longleftrightarrow> (\<exists>objs. lo PNone = Inr objs)"
    by (cases "lo PNone") (simp_all add: base_test_connection_def)
  show "r" if "test_connection x self = Inr r" for r
    using that by (cases "list_objects x self PNone") (simp_all add: test_connection_def)
  show "r" if "base_test_connection lo = Inr r" for r
    using that by (cases "lo PNone") (simp_all add: base_test_connection_def)
next
  fix e assume e: "list_objects x self PNone = Inl e"
  then show t: "test_connection x self
            = Inl (Raise GenericException (''MinIO connection test failed: '' @ exn_str e))"
    by (simp add: test_connection_def)
  show "\<exists>c m. test_connection x self = Inl (Raise c m) \<and> str_contains m (exn_str e)"
    unfolding t using str_contains_suffix [of "''MinIO connection test failed: ''" "exn_str e"]
    by blast
next
  fix e assume e: "lo PNone = Inl e"
  then show t: "base_test_connection lo
            = Inl (Raise GenericException (''Failed to connect to the storage: '' @ exn_str e))"
    by (simp add: base_test_connection_def)
  show "\<exists>c m. base_test_connection lo = Inl (Raise c m) \<and> str_contains m (exn_str e)"
    unfolding t using str_contains_suffix [of "''Failed to connect to the storage: ''" "exn_str e"]
    by blast
qed

theorem test_connection_iff_list_objects_witness:
  "list_objects example_externals example_runner PNone = Inr [object_entry file1, object_entry file2]
   \<and> test_connection example_externals example_runner = Inr True
   \<and> base_test_connection (list_objects example_externals example_runner) = Inr True
   \<and> list_objects example_externals unreachable_runner PNone
       = Inl (Raise GenericException
                ''Failed to list objects from bucket mock_bucket: Failed to connect'')
   \<and> test_connection example_externals unreachable_runner
       = Inl (Raise GenericException
                ''MinIO connection test failed: Failed to list objects from bucket mock_bucket: Failed to connect'')
   \<and> base_test_connection (list_objects example_externals unreachable_runner)
       = Inl (Raise GenericException
                ''Failed to connect to the storage: Failed to list objects from bucket mock_bucket: Failed to connect'')"
proof -
  have ok: "list_objects example_externals example_runner PNone
            = Inr [object_entry file1, object_entry file2]"
    by (simp add: list_objects_def example_runner_def configuration_get_def py_or_def)
  have bad: "list_objects example_externals unreachable_runner PNone
             = Inl (Raise GenericException
                      ''Failed to list objects from bucket mock_bucket: Failed to connect'')"
    by (simp add: list_objects_def unreachable_runner_def example_runner_def configuration_get_def
        py_or_def)
  from test_connection_iff_list_objects
         [of example_externals example_runner "list_objects example_externals example_runner"]
       test_connection_iff_list_objects
         [of example_externals unreachable_runner "list_objects example_externals unreachable_runner"]
       ok bad
  show ?thesis by simp
qed

section \<open>Properties of the submission endpoint\<close>

declare poll.simps [simp del]

lemma error_message_values:
  "error_message ''missing_fields'' = ''Request must include 'query' and 'db_name' fields.''"
  "error_message ''missing_query'' = ''Request must include 'query' fields.''"
  "error_message ''missing_db_name'' = ''Request must include 'db_name' fields.''"
  "error_message ''database_not_found'' = ''Database name not found.''"
  "error_message ''query_timeout'' = ''Query execution timeout.''"
  "error_message ''query_execution_failed'' = ''Query execution failed.''"
  "error_message ''sql_syntax_error'' = ''SQL syntax error.''"
  "error_message ''internal_server_error'' = ''Internal server error occurred. Please try again later.''"
  by (simp_all add: error_message_def error_messages_def)

lemma map_of_Some_key: "map_of kvs k = Some v \<Longrightarrow> k \<in> set (map fst kvs)"
  by (induction kvs) (auto split: if_splits)




lemma post_try_valid:
  assumes "get_json e = Inr (PDict kvs)"
    and "map_of kvs ''query'' = Some query_text"
    and "map_of kvs ''db_name'' = Some db_name"
  shows "post_try e = submit e query_text db_name"
proof -
  from assms(2) have ne: "kvs \<noteq> []" by auto
  from assms(2) have q: "''query'' \<in> set (map fst kvs)" by (rule map_of_Some_key)
  from assms(3) have d: "''db_name'' \<in> set (map fst kvs)" by (rule map_of_Some_key)
  from assms ne q d show ?thesis
    by (simp add: post_try_def)
qed

lemma submit_enqueued:
  assumes "data_source_first e db_name = Inr (Some data_source)"
    and "enqueue_query e query_text data_source = Inr job0"
  shows "submit e query_text db_name
         = (case fst (poll e job0 0) of
              Inl x \<Rightarrow> Inl x
            | Inr job \<Rightarrow>
                (case serialize_job e job of Inl x \<Rightarrow> Inl x | Inr logged \<Rightarrow> resolve e job),
            Enqueue query_text data_source # snd (poll e job0 0))"
  using assms by (simp add: submit_def split: prod.splits sum.splits)



lemma post_trace: "snd (post e) = snd (post_try e)"
  by (simp add: post_def split: prod.splits sum.splits)






text \<open>
  Claim C3, as stated: a body in which both \<open>query\<close> and \<open>db_name\<close> are missing gets the
  message for both fields. It fails for a body that is not empty and has neither field:
  the response carries the message for a missing \<open>query\<close>.
\<close>

theorem both_missing_counterexample:
  "get_json stray_env = Inr (PDict [(''foo'', PStr ''bar'')])
   \<and> py_in ''query'' (PDict [(''foo'', PStr ''bar'')]) = Inr False
   \<and> py_in ''db_name'' (PDict [(''foo'', PStr ''bar'')]) = Inr False
   \<and> fst (post stray_env) = error_response ''Request must include 'query' fields.'' 400
   \<and> fst (post stray_env)
       \<noteq> error_response ''Request must include 'query' and 'db_name' fields.'' 400"
  by (simp add: stray_env_def post_def post_try_def error_response_def error_message_values)

lemma py_in_raises_TypeError: "py_in k v = Inl x \<Longrightarrow> exn_class_of x = TypeError"
  by (cases v) auto

lemma py_in_same_outcome: "py_in k v = Inr b \<Longrightarrow> \<exists>b'. py_in k' v = Inr b'"
  by (cases v) auto

text \<open>
  Claim C3, amended. The checks are made in order, on whatever \<open>request.get_json()\<close>
  returns. A falsy body (null, \<open>{}\<close>, \<open>[]\<close>, the empty string, zero, false) gets HTTP
  400 with the message for both fields. Otherwise a body in which \<open>'query' in body\<close> is
  false gets HTTP 400 with the message for a missing \<open>query\<close>, whether \<open>db_name\<close> is
  present or not; a body with \<open>query\<close> in which \<open>'db_name' in body\<close> is false gets HTTP
  400 with the message for a missing \<open>db_name\<close>. A truthy body that has no membership
  test (a non-zero number, true) gets HTTP 500 with the internal-error message; the test
  for \<open>db_name\<close> cannot raise once the test for \<open>query\<close> has returned. When
  \<open>get_json\<close> raises, the response is that of the exception handlers: HTTP 400 with
  the SQL-syntax message for a \<open>ProgrammingError\<close>, else HTTP 500 with the internal-error
  message. Nothing is enqueued in any of these.
\<close>

theorem post_validation_messages:
  "(\<forall>x. get_json e = Inl x \<longrightarrow>
      post e = (if exn_class_of x = ProgrammingError
                then error_response ''SQL syntax error.'' 400
                else error_response ''Internal server error occurred. Please try again later.'' 500,
                []))
   \<and> (\<forall>query_data. get_json e = Inr query_data \<longrightarrow>
        (\<not> truthy query_data \<longrightarrow>
           post e = (error_response ''Request must include 'query' and 'db_name' fields.'' 400, []))
      \<and> (truthy query_data \<longrightarrow>
           (\<forall>x. py_in ''query'' query_data = Inl x \<longrightarrow>
              post e = (error_response ''Internal server error occurred. Please try again later.'' 500, []))
         \<and> (py_in ''query'' query_data = Inr False \<longrightarrow>
              post e = (error_response ''Request must include 'query' fields.'' 400, []))
         \<and> (py_in ''query'' query_data = Inr True \<longrightarrow>
              (\<exists>has_db_name. py_in ''db_name'' query_data = Inr has_db_name)
            \<and> (py_in ''db_name'' query_data = Inr False \<longrightarrow>
                 post e = (error_response ''Request must include 'db_name' fields.'' 400, [])))))"
proof (intro conjI allI impI)
  show "post e = (if exn_class_of x = ProgrammingError
                then error_response ''SQL syntax error.'' 400
                else error_response ''Internal server error occurred. Please try again later.'' 500,
                [])"
    if "get_json e = Inl x" for x
    using that by (simp add: post_def post_try_def error_message_values)
  show "post e = (error_response ''Request must include 'query' and 'db_name' fields.'' 400, [])"
    if "get_json e = Inr query_data" and "\<not> truthy query_data" for query_data
    using that by (simp add: post_def post_try_def error_message_values)
  show "post e = (error_response ''Internal server error occurred. Please try again later.'' 500, [])"
    if "get_json e = Inr query_data" and "truthy query_data"
      and "py_in ''query'' query_data = Inl x" for query_data x
    using that py_in_raises_TypeError [of "''query''" query_data x]
    by (simp add: post_def post_try_def error_message_values)
  show "post e = (error_response ''Request must include 'query' fields.'' 400, [])"
    if "get_json e = Inr query_data" and "truthy query_data"
      and "py_in ''query'' query_data = Inr False" for query_data
    using that by (simp add: post_def post_try_def error_message_values)
  show "\<exists>has_db_name. py_in ''db_name'' query_data = Inr has_db_name"
    if "py_in ''query'' query_data = Inr True" for query_data
    using that by (rule py_in_same_outcome)
  show "post e = (error_response ''Request must include 'db_name' fields.'' 400, [])"
    if "get_json e = Inr query_data" and "truthy query_data"
      and "py_in ''query'' query_data = Inr True" and "py_in ''db_name'' query_data = Inr False"
    for query_data
    using that by (simp add: post_def post_try_def error_message_values)
qed

theorem post_validation_messages_witness:
  "post empty_env = (error_response ''Request must include 'query' and 'db_name' fields.'' 400, [])
   \<and> post db_name_only_env = (error_response ''Request must include 'query' fields.'' 400, [])
   \<and> post stray_env = (error_response ''Request must include 'query' fields.'' 400, [])
   \<and> post query_only_env = (error_response ''Request must include 'db_name' fields.'' 400, [])
   \<and> post number_env
       = (error_response ''Internal server error occurred. Please try again later.'' 500, [])
   \<and> post unparsed_env
       = (error_response ''Internal server error occurred. Please try again later.'' 500, [])"
proof -
  have b0: "get_json empty_env = Inr (PDict [])"
    and b1: "get_json db_name_only_env = Inr (PDict [(''db_name'', PStr ''lake'')])"
    and b2: "get_json stray_env = Inr (PDict [(''foo'', PStr ''bar'')])"
    and b3: "get_json query_only_env = Inr (PDict [(''query'', PStr ''x'')])"
    and b4: "get_json number_env = Inr (PInt 5)"
    and b5: "get_json unparsed_env = Inl (Raise GenericException ''400 Bad Request'')"
    by (simp_all add: empty_env_def db_name_only_env_def stray_env_def query_only_env_def
        number_env_def unparsed_env_def)
  have t0: "\<not> truthy (PDict [])"
    and t1: "truthy (PDict [(''db_name'', PStr ''lake'')])"
            "py_in ''query'' (PDict [(''db_name'', PStr ''lake'')]) = Inr False"
    and t2: "truthy (PDict [(''foo'', PStr ''bar'')])"
            "py_in ''query'' (PDict [(''foo'', PStr ''bar'')]) = Inr False"
    and t3: "truthy (PDict [(''query'', PStr ''x'')])"
            "py_in ''query'' (PDict [(''query'', PStr ''x'')]) = Inr True"
            "py_in ''db_name'' (PDict [(''query'', PStr ''x'')]) = Inr False"
    and t4: "truthy (PInt 5)"
            "py_in ''query'' (PInt 5)
             = Inl (Raise TypeError (''argument of type '' @ [CHR 0x27] @ type_name (PInt 5)
                                     @ [CHR 0x27] @ '' is not iterable''))"
    by simp_all
  from post_validation_messages [of empty_env] b0 t0
  have w0: "post empty_env
            = (error_response ''Request must include 'query' and 'db_name' fields.'' 400, [])"
    by blast
  from post_validation_messages [of db_name_only_env] b1 t1
  have w1: "post db_name_only_env = (error_response ''Request must include 'query' fields.'' 400, [])"
    by blast
  from post_validation_messages [of stray_env] b2 t2
  have w2: "post stray_env = (error_response ''Request must include 'query' fields.'' 400, [])"
    by blast
  from post_validation_messages [of query_only_env] b3 t3
  have w3: "post query_only_env = (error_response ''Request must include 'db_name' fields.'' 400, [])"
    by blast
  from post_validation_messages [of number_env] b4 t4
  have w4: "post number_env
            = (error_response ''Internal server error occurred. Please try again later.'' 500, [])"
    by blast
  from post_validation_messages [of unparsed_env] b5
  have w5: "post unparsed_env
            = (if exn_class_of (Raise GenericException ''400 Bad Request'') = ProgrammingError
               then error_response ''SQL syntax error.'' 400
               else error_response ''Internal server error occurred. Please try again later.'' 500,
               [])"
    by blast
  from w0 w1 w2 w3 w4 w5 show ?thesis by simp
qed

text \<open>
  Claim C4, as stated: a data source whose configured type has no registered runner is
  refused with HTTP 404 and never enqueued. It fails: the data source \<open>lake\<close> has the
  type \<open>s3\<close>, the registry (after the MinIO runner registered itself) has no runner for
  \<open>s3\<close>, and the request for \<open>lake\<close> is enqueued and not answered with HTTP 404.
\<close>

theorem unregistered_type_counterexample:
  "data_source_first example_env (PStr ''lake'') = Inr (Some lake)
   \<and> register_storage storage_runners (MinioRunner True) (ds_type lake) = None
   \<and> Enqueue (PStr ''{}'') lake \<in> set (snd (post example_env))
   \<and> snd (fst (post example_env)) \<noteq> 404
   \<and> fst (post example_env) \<noteq> error_response ''Database name not found.'' 404"
proof -
  have "post example_env
        = ((PDict [(''status'', PStr ''success''), (''result'', stored_rows)], 200),
           Enqueue (PStr ''{}'') lake # concat (replicate 3 [Sleep 1, Refresh]))"
    by code_simp
  moreover have "data_source_first example_env (PStr ''lake'') = Inr (Some lake)"
    by (simp add: example_env_def lake_def)
  moreover have "register_storage storage_runners (MinioRunner True) (ds_type lake) = None"
    by (simp add: register_storage_def storage_runners_def MinioRunner_def lake_def)
  ultimately show ?thesis
    by (simp add: error_response_def)
qed

text \<open>
  Claim C4, amended. The backend is resolved by name only. When no data source has the
  name in \<open>db_name\<close>, the response is HTTP 404 with "Database name not found." and
  nothing is enqueued. When a data source has that name, the handler calls
  \<open>enqueue_query\<close> for it, whatever its type and whatever the registry holds.
\<close>

theorem post_resolves_by_name:
  assumes "get_json e = Inr (PDict kvs)"
    and "map_of kvs ''query'' = Some query_text"
    and "map_of kvs ''db_name'' = Some db_name"
  shows "(data_source_first e db_name = Inr None \<longrightarrow>
            post e = (error_response ''Database name not found.'' 404, []))
       \<and> (\<forall>d. data_source_first e db_name = Inr (Some d) \<longrightarrow>
            (\<exists>tr. snd (post e) = Enqueue query_text d # tr))"
proof (intro conjI allI impI)
  note pt = post_try_valid [OF assms]
  show "post e = (error_response ''Database name not found.'' 404, [])"
    if "data_source_first e db_name = Inr None"
    using that pt by (simp add: post_def submit_def error_message_values)
  show "\<exists>tr. snd (post e) = Enqueue query_text d # tr"
    if "data_source_first e db_name = Inr (Some d)" for d
  proof (cases "enqueue_query e query_text d")
    case (Inl x)
    with that pt have "snd (post_try e) = [Enqueue query_text d]"
      by (simp add: submit_def)
    then show ?thesis by (simp add: post_trace)
  next
    case (Inr job0)
    from submit_enqueued [OF that Inr] pt
    have "snd (post_try e) = Enqueue query_text d # snd (poll e job0 0)"
      by simp
    then show ?thesis by (simp add: post_trace)
  qed
qed

theorem post_resolves_by_name_witness:
  "data_source_first unknown_env (PStr ''nope'') = Inr None
   \<and> post unknown_env = (error_response ''Database name not found.'' 404, [])
   \<and> data_source_first example_env (PStr ''lake'') = Inr (Some lake)
   \<and> hd (snd (post example_env)) = Enqueue (PStr ''{}'') lake"
proof -
  have b0: "get_json unknown_env = Inr (PDict [(''query'', PStr ''{}''), (''db_name'', PStr ''nope'')])"
    and q0: "map_of [(''query'', PStr ''{}''), (''db_name'', PStr ''nope'')] ''query'' = Some (PStr ''{}'')"
    and d0: "map_of [(''query'', PStr ''{}''), (''db_name'', PStr ''nope'')] ''db_name'' = Some (PStr ''nope'')"
    and n0: "data_source_first unknown_env (PStr ''nope'') = Inr None"
    by (simp_all add: unknown_env_def example_env_def lake_def)
  have b1: "get_json example_env = Inr (PDict [(''query'', PStr ''{}''), (''db_name'', PStr ''lake'')])"
    and q1: "map_of [(''query'', PStr ''{}''), (''db_name'', PStr ''lake'')] ''query'' = Some (PStr ''{}'')"
    and d1: "map_of [(''query'', PStr ''{}''), (''db_name'', PStr ''lake'')] ''db_name'' = Some (PStr ''lake'')"
    and n1: "data_source_first example_env (PStr ''lake'') = Inr (Some lake)"
    by (simp_all add: example_env_def lake_def)
  from post_resolves_by_name [OF b1 q1 d1] n1
  obtain tr where "snd (post example_env) = Enqueue (PStr ''{}'') lake # tr"
    by blast
  then have "hd (snd (post example_env)) = Enqueue (PStr ''{}'') lake"
    by simp
  with post_resolves_by_name [OF b0 q0 d0] n0 n1 show ?thesis
    by blast
qed

end
